theory Spec2Isabelle
  imports Main
begin

section \<open>Fatal failures\<close>

text \<open>
  Every \<^verbatim>\<open>panic\<close> of the Go code is a value.  \<open>RankTooLow\<close> is the panic of
  \<^verbatim>\<open>Factorize\<close> itself (rsvd.go, line 33); \<open>NilDereference\<close> is the run-time panic of
  Go when a method reads the fields of a nil receiver; \<open>MakeSliceLenOutOfRange\<close> is the
  run-time panic of \<^verbatim>\<open>make\<close> on a negative length; the others are the error values
  of package \<^verbatim>\<open>mat\<close> that the collaborators of rsvd.go panic with (rsvd.go itself names
  \<^verbatim>\<open>ErrShape\<close>, line 106, and \<^verbatim>\<open>ErrSliceLengthMismatch\<close>, line 77).
\<close>

datatype panic =
    RankTooLow int
  | NilDereference
  | MakeSliceLenOutOfRange
  | ErrShape
  | ErrZeroLength
  | ErrNegativeDimension
  | ErrIndexOutOfRange
  | ErrReuseNonEmpty
  | ErrSliceLengthMismatch
  | BadFact

section \<open>Dense matrices\<close>

text \<open>
  Modelled from the spec: the type \<^verbatim>\<open>Dense\<close> and its operations are declared in files of
  package \<^verbatim>\<open>mat\<close> other than rsvd.go.  The interface section of the specification
  asks for: construction from row and column counts and an optional flat row-major data
  buffer, matrix multiplication with shape checking, a transpose view, sub-block slicing,
  an emptiness query, in-place resize-if-empty and element-wise copy-from, with shape
  mismatches signalled by a dedicated condition.

  Where the specification is silent the operations do what package \<^verbatim>\<open>mat\<close> does: a
  construction or a resize with a dimension of zero or less is the fatal failure
  \<^verbatim>\<open>ErrZeroLength\<close> or \<^verbatim>\<open>ErrNegativeDimension\<close>, a slice outside the matrix is
  \<^verbatim>\<open>ErrIndexOutOfRange\<close>, and a matrix is empty when it has no rows or no columns.

  A matrix is its two dimensions and its elements in row-major order.  The element type is
  a parameter: the claims are about shapes, control flow and stored state, none about the
  rounding of \<^verbatim>\<open>float64\<close>.  Go's \<^verbatim>\<open>int\<close> is modelled by \<open>int\<close>: the dimensions
  of a matrix held in memory are far from the 64-bit bounds.
\<close>

record 'a dense =
  nrows :: nat
  ncols :: nat
  elems :: "'a list"

definition empty_dense :: "'a dense" where
  "empty_dense = \<lparr>nrows = 0, ncols = 0, elems = []\<rparr>"

definition at :: "'a dense \<Rightarrow> nat \<Rightarrow> nat \<Rightarrow> 'a" where
  "at d i j = elems d ! (i * ncols d + j)"

definition tabulate :: "nat \<Rightarrow> nat \<Rightarrow> (nat \<Rightarrow> nat \<Rightarrow> 'a) \<Rightarrow> 'a dense" where
  "tabulate r c f =
     \<lparr>nrows = r, ncols = c, elems = concat (map (\<lambda>i. map (f i) [0..<c]) [0..<r])\<rparr>"

definition Dims :: "'a dense \<Rightarrow> int \<times> int" where
  "Dims d = (int (nrows d), int (ncols d))"

definition IsEmpty :: "'a dense \<Rightarrow> bool" where
  "IsEmpty d = (nrows d = 0 \<or> ncols d = 0)"

definition NewDense :: "int \<Rightarrow> int \<Rightarrow> ('a::zero) list option \<Rightarrow> panic + 'a dense" where
  "NewDense r c data =
     (if r \<le> 0 \<or> c \<le> 0 then
        Inl (if r = 0 \<or> c = 0 then ErrZeroLength else ErrNegativeDimension)
      else case data of
        None \<Rightarrow> Inr \<lparr>nrows = nat r, ncols = nat c, elems = replicate (nat (r * c)) 0\<rparr>
      | Some xs \<Rightarrow>
          if int (length xs) \<noteq> r * c then Inl ErrShape
          else Inr \<lparr>nrows = nat r, ncols = nat c, elems = xs\<rparr>)"

definition matmul :: "('a::semiring_0) dense \<Rightarrow> 'a dense \<Rightarrow> 'a dense" where
  "matmul a b =
     tabulate (nrows a) (ncols b)
       (\<lambda>i j. sum_list (map (\<lambda>k. at a i k * at b k j) [0..<ncols a]))"

text \<open>
  \<^verbatim>\<open>recv.Mul(a, b)\<close>: the inner dimensions must agree; an empty receiver is resized to
  the product's shape, a non-empty one must have it already.
\<close>

definition Mul :: "('a::semiring_0) dense \<Rightarrow> 'a dense \<Rightarrow> 'a dense \<Rightarrow> panic + 'a dense" where
  "Mul recv a b =
     (if ncols a \<noteq> nrows b then Inl ErrShape
      else if IsEmpty recv then Inr (matmul a b)
      else if nrows recv \<noteq> nrows a \<or> ncols recv \<noteq> ncols b then Inl ErrShape
      else Inr (matmul a b))"

definition T :: "'a dense \<Rightarrow> 'a dense" where
  "T d = tabulate (ncols d) (nrows d) (\<lambda>i j. at d j i)"

text \<open>
  \<^verbatim>\<open>d.Slice(i, k, j, l)\<close> is the block of rows \<open>i..<k\<close> and columns \<open>j..<l\<close>; indices
  outside the matrix are a fatal failure.
\<close>

definition Slice :: "'a dense \<Rightarrow> int \<Rightarrow> int \<Rightarrow> int \<Rightarrow> int \<Rightarrow> panic + 'a dense" where
  "Slice d i k j l =
     (let mr = int (nrows d); mc = int (ncols d) in
      if i < 0 \<or> mr \<le> i \<or> j < 0 \<or> mc \<le> j \<or> k < i \<or> mr < k \<or> l < j \<or> mc < l then
        Inl (if k = i \<or> l = j then ErrZeroLength else ErrIndexOutOfRange)
      else
        Inr (tabulate (nat (k - i)) (nat (l - j)) (\<lambda>a b. at d (nat i + a) (nat j + b))))"

definition ReuseAs :: "('a::zero) dense \<Rightarrow> int \<Rightarrow> int \<Rightarrow> panic + 'a dense" where
  "ReuseAs d r c =
     (if r \<le> 0 \<or> c \<le> 0 then
        Inl (if r = 0 \<or> c = 0 then ErrZeroLength else ErrNegativeDimension)
      else if \<not> IsEmpty d then Inl ErrReuseNonEmpty
      else Inr \<lparr>nrows = nat r, ncols = nat c, elems = replicate (nat (r * c)) 0\<rparr>)"

text \<open>
  \<^verbatim>\<open>dst.Copy(src)\<close> overwrites the block that the two matrices share (the first
  \<open>min\<close> rows and columns) and leaves the shape of \<open>dst\<close> alone.
\<close>

definition Copy :: "'a dense \<Rightarrow> 'a dense \<Rightarrow> 'a dense" where
  "Copy dst src =
     tabulate (nrows dst) (ncols dst)
       (\<lambda>i j. if i < min (nrows dst) (nrows src) \<and> j < min (ncols dst) (ncols src)
               then at src i j else at dst i j)"

section \<open>The collaborators: QR, SVD and the random source\<close>

text \<open>
  Modelled from the spec: the types \<^verbatim>\<open>QR\<close> and \<^verbatim>\<open>SVD\<close> of package \<^verbatim>\<open>mat\<close> and
  the generator behind \<^verbatim>\<open>rand.Float64\<close> are not in rsvd.go.  They are parameters of the
  model: a record of the operations that rsvd.go calls.  \<open>'sv\<close> is the state an
  \<^verbatim>\<open>SVD\<close> value holds and \<open>'qr\<close> the state of a \<^verbatim>\<open>QR\<close> value.  An operation that
  may panic returns a sum; \<^verbatim>\<open>SVD.Factorize\<close> also returns the state it leaves behind.
  The extraction operations take the destination and return it as written.
  \<open>rand_Float64 i\<close> is the \<open>i\<close>-th draw of the random source during one call.
\<close>

datatype SVDKind = SVDNone | SVDThin | SVDFull

record ('a, 'sv, 'qr) collaborators =
  svd_Factorize :: "'sv \<Rightarrow> 'a dense \<Rightarrow> SVDKind \<Rightarrow> (panic + bool) \<times> 'sv"
  svd_Values :: "'sv \<Rightarrow> 'a list option \<Rightarrow> panic + 'a list"
  svd_UTo :: "'sv \<Rightarrow> 'a dense \<Rightarrow> panic + 'a dense"
  svd_VTo :: "'sv \<Rightarrow> 'a dense \<Rightarrow> panic + 'a dense"
  qr_Factorize :: "'a dense \<Rightarrow> panic + 'qr"
  qr_QTo :: "'qr \<Rightarrow> 'a dense \<Rightarrow> panic + 'a dense"
  rand_Float64 :: "nat \<Rightarrow> 'a"

section \<open>The RSVD type and its operations (rsvd.go)\<close>

text \<open>
  The struct of lines 14--19.  The two pointer fields are options: \<open>None\<close> is the nil
  pointer, which is what the zero value of the struct holds.
\<close>

record ('a, 'sv) RSVD =
  rsvd_svd :: "'sv option"
  rsvd_rank :: int
  rsvd_q :: "'a dense option"
  rsvd_m :: int


definition minRank :: int where
  "minRank = 1"

text \<open>Lines 124--133.\<close>

definition makeRandomMatrix :: "(nat \<Rightarrow> 'a::zero) \<Rightarrow> int \<Rightarrow> int \<Rightarrow> panic + 'a dense" where
  "makeRandomMatrix rnd rows columns =
     (let dataLength = rows * columns in
      if dataLength < 0 then Inl MakeSliceLenOutOfRange
      else NewDense rows columns (Some (map rnd [0..<nat dataLength])))"

text \<open>
  Lines 27--71.  The result is what the call returns (a panic or the boolean) and the
  receiver as the call leaves it: the two assignments of lines 65--66 come before the
  call of line 70, so a panic there leaves them in place.  The argument \<open>A\<close>, of the
  interface type \<^verbatim>\<open>Matrix\<close>, is a dense matrix here.
\<close>

definition Factorize ::
  "('a::semiring_0, 'sv, 'qr) collaborators \<Rightarrow> ('a, 'sv) RSVD \<Rightarrow> 'a dense \<Rightarrow> int
     \<Rightarrow> (panic + bool) \<times> ('a, 'sv) RSVD" where
  "Factorize c rsvd A rank =
     (if rank < minRank then (Inl (RankTooLow rank), rsvd)
      else
        let (m, n) = Dims A in
        (case makeRandomMatrix (rand_Float64 c) n rank of Inl e \<Rightarrow> (Inl e, rsvd) | Inr P \<Rightarrow>
        (case NewDense m rank None of Inl e \<Rightarrow> (Inl e, rsvd) | Inr Z0 \<Rightarrow>
        (case Mul Z0 A P of Inl e \<Rightarrow> (Inl e, rsvd) | Inr Z \<Rightarrow>
        (case qr_Factorize c Z of Inl e \<Rightarrow> (Inl e, rsvd) | Inr QR \<Rightarrow>
        (case qr_QTo c QR empty_dense of Inl e \<Rightarrow> (Inl e, rsvd) | Inr QFull \<Rightarrow>
        (case Slice QFull 0 m 0 rank of Inl e \<Rightarrow> (Inl e, rsvd) | Inr Q \<Rightarrow>
        (case NewDense rank n None of Inl e \<Rightarrow> (Inl e, rsvd) | Inr Y0 \<Rightarrow>
        (case Mul Y0 (T Q) A of Inl e \<Rightarrow> (Inl e, rsvd) | Inr Y \<Rightarrow>
        (let rsvd' = rsvd\<lparr>rsvd_m := m, rsvd_q := Some Q\<rparr> in
         (case rsvd_svd rsvd' of
            None \<Rightarrow> (Inl NilDereference, rsvd')
          | Some sv \<Rightarrow>
              (case svd_Factorize c sv Y SVDThin of
                 (res, sv') \<Rightarrow> (res, rsvd'\<lparr>rsvd_svd := Some sv'\<rparr>)))))))))))))"

text \<open>Lines 81--83.\<close>

definition Values ::
  "('a, 'sv, 'qr) collaborators \<Rightarrow> ('a, 'sv) RSVD \<Rightarrow> 'a list option \<Rightarrow> panic + 'a list" where
  "Values c rsvd s =
     (case rsvd_svd rsvd of
        None \<Rightarrow> Inl NilDereference
      | Some sv \<Rightarrow> svd_Values c sv s)"

text \<open>
  Lines 91--111.  The result is the outcome of the call and the destination as the call
  leaves it; the destination is a non-nil pointer.
\<close>

definition UTo ::
  "('a::semiring_0, 'sv, 'qr) collaborators \<Rightarrow> ('a, 'sv) RSVD \<Rightarrow> 'a dense
     \<Rightarrow> (panic + unit) \<times> 'a dense" where
  "UTo c rsvd dst =
     (case rsvd_svd rsvd of None \<Rightarrow> (Inl NilDereference, dst) | Some sv \<Rightarrow>
     (case svd_UTo c sv empty_dense of Inl e \<Rightarrow> (Inl e, dst) | Inr Uy \<Rightarrow>
     (case NewDense (rsvd_m rsvd) (rsvd_rank rsvd) None of Inl e \<Rightarrow> (Inl e, dst) | Inr U0 \<Rightarrow>
     (case rsvd_q rsvd of None \<Rightarrow> (Inl NilDereference, dst) | Some Q \<Rightarrow>
     (case Mul U0 Q Uy of Inl e \<Rightarrow> (Inl e, dst) | Inr U \<Rightarrow>
     (if IsEmpty dst then
        (case ReuseAs dst (rsvd_m rsvd) (rsvd_rank rsvd) of
           Inl e \<Rightarrow> (Inl e, dst)
         | Inr dst' \<Rightarrow> (Inr (), Copy dst' U))
      else
        (let (r2, c2) = Dims dst in
         if rsvd_m rsvd \<noteq> r2 \<or> rsvd_rank rsvd \<noteq> c2 then (Inl ErrShape, dst)
         else (Inr (), Copy dst U))))))))"

text \<open>Lines 119--121.\<close>

definition VTo ::
  "('a, 'sv, 'qr) collaborators \<Rightarrow> ('a, 'sv) RSVD \<Rightarrow> 'a dense \<Rightarrow> (panic + unit) \<times> 'a dense" where
  "VTo c rsvd dst =
     (case rsvd_svd rsvd of
        None \<Rightarrow> (Inl NilDereference, dst)
      | Some sv \<Rightarrow>
          (case svd_VTo c sv dst of
             Inl e \<Rightarrow> (Inl e, dst)
           | Inr dst' \<Rightarrow> (Inr (), dst')))"

section \<open>An instance of the collaborators\<close>

text \<open>
  The operations above are run on concrete inputs with the simplest collaborators that
  have the shapes of a QR factorization and of a thin SVD.  \<open>extract_into r c f dst\<close> is
  the destination contract of every extraction: an empty destination is resized to
  \<open>r \<times> c\<close>, a non-empty one must have that shape.  The orthogonal factor of the
  instance is the \<open>m \<times> m\<close> identity.  Its SVD state is the shape \<open>(r, n)\<close> of the
  matrix it was given (\<open>None\<close> before any factorization); with \<open>k = min r n\<close>, its
  singular values are \<open>k - 1, \<dots>, 1, 0\<close>, its left vectors the first \<open>k\<close> columns
  of the \<open>r \<times> r\<close> identity and its right vectors the first \<open>k\<close> columns of the
  \<open>n \<times> n\<close> identity.  No claim depends on the numbers.
\<close>

definition extract_into ::
  "nat \<Rightarrow> nat \<Rightarrow> (nat \<Rightarrow> nat \<Rightarrow> 'a) \<Rightarrow> 'a dense \<Rightarrow> panic + 'a dense" where
  "extract_into r c f dst =
     (if IsEmpty dst then Inr (tabulate r c f)
      else if nrows dst \<noteq> r \<or> ncols dst \<noteq> c then Inl ErrShape
      else Inr (tabulate r c f))"

definition unit_entry :: "nat \<Rightarrow> nat \<Rightarrow> int" where
  "unit_entry i j = (if i = j then 1 else 0)"

definition plain :: "(int, (nat \<times> nat) option, nat) collaborators" where
  "plain =
     \<lparr>svd_Factorize = (\<lambda>sv Y kind. (Inr True, Some (nrows Y, ncols Y))),
      svd_Values = (\<lambda>sv s.
        case sv of
          None \<Rightarrow> Inl BadFact
        | Some (r, n) \<Rightarrow>
            (case s of
               None \<Rightarrow> Inr (rev (map int [0..<min r n]))
             | Some xs \<Rightarrow>
                 if length xs \<noteq> min r n then Inl ErrSliceLengthMismatch
                 else Inr (rev (map int [0..<min r n])))),
      svd_UTo = (\<lambda>sv dst.
        case sv of
          None \<Rightarrow> Inl BadFact
        | Some (r, n) \<Rightarrow> extract_into r (min r n) unit_entry dst),
      svd_VTo = (\<lambda>sv dst.
        case sv of
          None \<Rightarrow> Inl BadFact
        | Some (r, n) \<Rightarrow> extract_into n (min r n) unit_entry dst),
      qr_Factorize = (\<lambda>Z. Inr (nrows Z)),
      qr_QTo = (\<lambda>k dst. extract_into k k unit_entry dst),
      rand_Float64 = (\<lambda>i. 1)\<rparr>"

text \<open>A receiver whose \<open>svd\<close> field points to a fresh \<^verbatim>\<open>SVD\<close> value.\<close>

definition RSVD_fresh :: "(int, (nat \<times> nat) option) RSVD" where
  "RSVD_fresh = \<lparr>rsvd_svd = Some None, rsvd_rank = 0, rsvd_q = None, rsvd_m = 0\<rparr>"

definition A32 :: "int dense" where
  "A32 = \<lparr>nrows = 3, ncols = 2, elems = [1, 2, 3, 4, 5, 6]\<rparr>"

section \<open>The chain of the specification\<close>

text \<open>
  The intermediate values as the specification names them, without the failure paths:
  the random projector \<open>P\<close> (\<open>n \<times> rank\<close>), the sketch \<open>Z = A \<cdot> P\<close>, the
  first \<open>rank\<close> columns of a matrix, and the reduced matrix \<open>Y = Q\<^sup>T \<cdot> A\<close>.
  \<open>orthogonal_factor\<close> is what lines 51--54 ask of the QR collaborator.
\<close>

definition random_projector :: "(nat \<Rightarrow> 'a) \<Rightarrow> nat \<Rightarrow> nat \<Rightarrow> 'a dense" where
  "random_projector rnd n k = \<lparr>nrows = n, ncols = k, elems = map rnd [0..<n * k]\<rparr>"

definition sketch :: "(nat \<Rightarrow> 'a::semiring_0) \<Rightarrow> 'a dense \<Rightarrow> nat \<Rightarrow> 'a dense" where
  "sketch rnd A k = matmul A (random_projector rnd (ncols A) k)"

definition first_columns :: "nat \<Rightarrow> 'a dense \<Rightarrow> 'a dense" where
  "first_columns k d = tabulate (nrows d) k (at d)"

definition reduced_matrix :: "('a::semiring_0) dense \<Rightarrow> 'a dense \<Rightarrow> 'a dense" where
  "reduced_matrix Q A = matmul (T Q) A"

definition orthogonal_factor ::
  "('a, 'sv, 'qr) collaborators \<Rightarrow> 'a dense \<Rightarrow> panic + 'a dense" where
  "orthogonal_factor c Z =
     (case qr_Factorize c Z of
        Inl e \<Rightarrow> Inl e
      | Inr QR \<Rightarrow> qr_QTo c QR empty_dense)"

section \<open>The contract of the SVD collaborator\<close>

text \<open>
  Modelled from the spec: the code of \<^verbatim>\<open>SVD\<close> is not in rsvd.go.  The specification
  asks of the exact SVD collaborator, in thin mode: a success flag, singular values in
  descending order, and on-demand extraction of the left and right singular-vector
  matrices, each extraction validating the shape of a non-empty destination.  Its glossary
  defines the thin SVD as the one that computes only \<open>min(rows, cols)\<close> singular vectors,
  and the comment of lines 75--78 of rsvd.go asks an output slice to have that length, with
  \<^verbatim>\<open>ErrSliceLengthMismatch\<close> otherwise.  So for a matrix \<open>Y\<close> with \<open>r\<close> rows and \<open>n\<close>
  columns and \<open>k = min r n\<close> there are \<open>k\<close> singular values, none negative, the left
  vectors are \<open>r \<times> k\<close> and the right vectors \<open>n \<times> k\<close>: the \<open>rank \<times> rank\<close>
  and \<open>n \<times> rank\<close> of the interface section when \<open>Y\<close> is \<open>rank \<times> n\<close> with
  \<open>rank \<le> n\<close>.  Each predicate says this of every state that a successful thin
  factorization leaves behind.
\<close>

definition svd_values_contract :: "('a::linordered_semiring, 'sv, 'qr) collaborators \<Rightarrow> bool" where
  "svd_values_contract c \<longleftrightarrow>
     (\<forall>sv Y sv'. svd_Factorize c sv Y SVDThin = (Inr True, sv') \<longrightarrow>
        (\<exists>vs. length vs = min (nrows Y) (ncols Y) \<and> sorted (rev vs) \<and>
              (\<forall>v \<in> set vs. 0 \<le> v) \<and>
              svd_Values c sv' None = Inr vs \<and>
              (\<forall>xs. xs \<noteq> [] \<longrightarrow>
                 svd_Values c sv' (Some xs) =
                   (if length xs = min (nrows Y) (ncols Y) then Inr vs
                    else Inl ErrSliceLengthMismatch))))"

definition extraction_contract ::
  "('a dense \<Rightarrow> panic + 'a dense) \<Rightarrow> nat \<Rightarrow> nat \<Rightarrow> bool" where
  "extraction_contract f r k \<longleftrightarrow>
     (\<forall>dst.
        if IsEmpty dst \<or> (nrows dst = r \<and> ncols dst = k)
        then \<exists>d. f dst = Inr d \<and> nrows d = r \<and> ncols d = k
        else f dst = Inl ErrShape)"

definition svd_left_contract :: "('a, 'sv, 'qr) collaborators \<Rightarrow> bool" where
  "svd_left_contract c \<longleftrightarrow>
     (\<forall>sv Y sv'. svd_Factorize c sv Y SVDThin = (Inr True, sv') \<longrightarrow>
        extraction_contract (svd_UTo c sv') (nrows Y) (min (nrows Y) (ncols Y)))"

definition svd_right_contract :: "('a, 'sv, 'qr) collaborators \<Rightarrow> bool" where
  "svd_right_contract c \<longleftrightarrow>
     (\<forall>sv Y sv'. svd_Factorize c sv Y SVDThin = (Inr True, sv') \<longrightarrow>
        extraction_contract (svd_VTo c sv') (ncols Y) (min (nrows Y) (ncols Y)))"

section \<open>Concrete inputs\<close>

text \<open>
  Three non-empty destinations, the \<open>3 \<times> 3\<close> identity, and the receivers that
  \<open>Factorize\<close> leaves behind when it is called on \<open>RSVD_fresh\<close> with the \<open>3 \<times> 2\<close>
  matrix \<open>A32\<close> and rank 2, and with rank 3.
\<close>

definition D22 :: "int dense" where
  "D22 = \<lparr>nrows = 2, ncols = 2, elems = [9, 9, 9, 9]\<rparr>"

definition D32 :: "int dense" where
  "D32 = \<lparr>nrows = 3, ncols = 2, elems = [9, 9, 9, 9, 9, 9]\<rparr>"

definition D23 :: "int dense" where
  "D23 = \<lparr>nrows = 2, ncols = 3, elems = [9, 9, 9, 9, 9, 9]\<rparr>"

definition I3 :: "int dense" where
  "I3 = \<lparr>nrows = 3, ncols = 3, elems = [1, 0, 0, 0, 1, 0, 0, 0, 1]\<rparr>"

definition RSVD_done :: "(int, (nat \<times> nat) option) RSVD" where
  "RSVD_done = snd (Factorize plain RSVD_fresh A32 2)"

definition RSVD_done3 :: "(int, (nat \<times> nat) option) RSVD" where
  "RSVD_done3 = snd (Factorize plain RSVD_fresh A32 3)"

section \<open>Shapes\<close>

lemma nrows_tabulate [simp]: "nrows (tabulate r c f) = r"
  by (simp add: tabulate_def)

lemma ncols_tabulate [simp]: "ncols (tabulate r c f) = c"
  by (simp add: tabulate_def)

lemma length_concat_rows:
  "length (concat (map (\<lambda>i. map (f i) [0..<c]) xs)) = length xs * c"
  by (induction xs) simp_all

lemma length_elems_tabulate [simp]: "length (elems (tabulate r c f)) = r * c"
  by (simp add: tabulate_def length_concat_rows)

lemma nrows_matmul [simp]: "nrows (matmul a b) = nrows a"
  by (simp add: matmul_def)

lemma ncols_matmul [simp]: "ncols (matmul a b) = ncols b"
  by (simp add: matmul_def)

lemma nrows_T [simp]: "nrows (T d) = ncols d"
  by (simp add: T_def)

lemma ncols_T [simp]: "ncols (T d) = nrows d"
  by (simp add: T_def)

lemma NewDense_None:
  "0 < r \<Longrightarrow> 0 < c \<Longrightarrow>
     NewDense r c None = Inr \<lparr>nrows = nat r, ncols = nat c, elems = replicate (nat (r * c)) 0\<rparr>"
  by (simp add: NewDense_def)

lemma makeRandomMatrix_ok:
  assumes "0 < rows" and "0 < columns"
  shows "makeRandomMatrix rnd rows columns = Inr (random_projector rnd (nat rows) (nat columns))"
proof -
  from assms have "\<not> rows * columns < 0"
    by (simp add: mult_less_0_iff)
  with assms show ?thesis
    by (simp add: makeRandomMatrix_def random_projector_def NewDense_def Let_def nat_mult_distrib)
qed

lemma Mul_ok:
  "ncols a = nrows b \<Longrightarrow> nrows recv = nrows a \<Longrightarrow> ncols recv = ncols b \<Longrightarrow>
     Mul recv a b = Inr (matmul a b)"
  by (simp add: Mul_def)

lemma Slice_dims:
  "Slice d 0 m 0 k = Inr Q \<Longrightarrow> nrows Q = nat m \<and> ncols Q = nat k \<and> 0 \<le> m \<and> 0 \<le> k"
  by (auto simp: Slice_def Let_def split: if_splits)

lemma Slice_first_columns:
  "0 < nrows d \<Longrightarrow> 0 < k \<Longrightarrow> k \<le> int (ncols d) \<Longrightarrow>
     Slice d 0 (int (nrows d)) 0 k = Inr (first_columns (nat k) d)"
  by (simp add: Slice_def first_columns_def Let_def tabulate_def)

text \<open>The elements of a tabulated matrix, and a copy between matrices of one shape.\<close>

lemma nth_concat_rows:
  "i < r \<Longrightarrow> j < c \<Longrightarrow>
     concat (map (\<lambda>i. map (f i) [0..<c]) [0..<r]) ! (i * c + j) = f i j"
proof (induction r)
  case 0
  then show ?case by simp
next
  case (Suc r)
  have len: "length (concat (map (\<lambda>i. map (f i) [0..<c]) [0..<r])) = r * c"
    by (simp add: length_concat_rows)
  show ?case
  proof (cases "i < r")
    case True
    then have "Suc i \<le> r" by simp
    then have "Suc i * c \<le> r * c" by (rule mult_le_mono1)
    with Suc.prems(2) have "i * c + j < r * c" by simp
    with True Suc show ?thesis
      by (simp add: nth_append len)
  next
    case False
    with Suc.prems have "i = r" by simp
    with Suc.prems show ?thesis
      by (simp add: nth_append len)
  qed
qed

lemma at_tabulate: "i < r \<Longrightarrow> j < c \<Longrightarrow> at (tabulate r c f) i j = f i j"
  by (simp add: at_def tabulate_def nth_concat_rows)

lemma tabulate_cong:
  assumes "\<And>i j. i < r \<Longrightarrow> j < c \<Longrightarrow> f i j = g i j"
  shows "tabulate r c f = tabulate r c g"
proof -
  have row: "map (f i) [0..<c] = map (g i) [0..<c]" if "i < r" for i
    by (rule map_cong) (simp_all add: assms that)
  have "map (\<lambda>i. map (f i) [0..<c]) [0..<r] = map (\<lambda>i. map (g i) [0..<c]) [0..<r]"
    by (rule map_cong) (simp_all add: row)
  then show ?thesis by (simp only: tabulate_def)
qed

lemma Copy_same_shape:
  assumes "nrows dst = r" and "ncols dst = c"
  shows "Copy dst (tabulate r c f) = tabulate r c f"
  unfolding Copy_def assms
  by (rule tabulate_cong) (simp add: at_tabulate)

lemma Copy_matmul:
  assumes "nrows dst = nrows a" and "ncols dst = ncols b"
  shows "Copy dst (matmul a b) = matmul a b"
  unfolding matmul_def using assms by (rule Copy_same_shape)

section \<open>Factorize, step by step\<close>

text \<open>
  On a matrix with at least one row and one column and a rank of at least 1, the
  constructions and the two products of \<open>Factorize\<close> cannot fail: what is left are the QR
  collaborator, the truncation of its factor, and the SVD collaborator.
\<close>

lemma Factorize_unfold:
  assumes "1 \<le> rank" and "0 < nrows A" and "0 < ncols A"
  shows "Factorize c rsvd A rank =
     (case orthogonal_factor c (sketch (rand_Float64 c) A (nat rank)) of
        Inl e \<Rightarrow> (Inl e, rsvd)
      | Inr QFull \<Rightarrow>
         (case Slice QFull 0 (int (nrows A)) 0 rank of
            Inl e \<Rightarrow> (Inl e, rsvd)
          | Inr Q \<Rightarrow>
             (case rsvd_svd rsvd of
                None \<Rightarrow> (Inl NilDereference, rsvd\<lparr>rsvd_m := int (nrows A), rsvd_q := Some Q\<rparr>)
              | Some sv \<Rightarrow>
                 (fst (svd_Factorize c sv (reduced_matrix Q A) SVDThin),
                  rsvd\<lparr>rsvd_m := int (nrows A), rsvd_q := Some Q,
                       rsvd_svd := Some (snd (svd_Factorize c sv (reduced_matrix Q A) SVDThin))\<rparr>))))"
proof -
  have P: "makeRandomMatrix (rand_Float64 c) (int (ncols A)) rank =
             Inr (random_projector (rand_Float64 c) (ncols A) (nat rank))"
    using assms makeRandomMatrix_ok[of "int (ncols A)" rank "rand_Float64 c"] by simp
  have Z0: "NewDense (int (nrows A)) rank None =
             Inr \<lparr>nrows = nrows A, ncols = nat rank,
                   elems = replicate (nat (int (nrows A) * rank)) (0::'a)\<rparr>"
    using assms NewDense_None[of "int (nrows A)" rank] by simp
  have Z: "Mul \<lparr>nrows = nrows A, ncols = nat rank,
                   elems = replicate (nat (int (nrows A) * rank)) (0::'a)\<rparr> A
               (random_projector (rand_Float64 c) (ncols A) (nat rank)) =
             Inr (sketch (rand_Float64 c) A (nat rank))"
    by (simp add: Mul_ok sketch_def random_projector_def)
  have Y0: "NewDense rank (int (ncols A)) None =
             Inr \<lparr>nrows = nat rank, ncols = ncols A,
                   elems = replicate (nat (rank * int (ncols A))) (0::'a)\<rparr>"
    using assms NewDense_None[of rank "int (ncols A)"] by simp
  have Y: "Mul \<lparr>nrows = nat rank, ncols = ncols A,
                   elems = replicate (nat (rank * int (ncols A))) (0::'a)\<rparr> (T Q) A =
             Inr (reduced_matrix Q A)"
    if "Slice QFull 0 (int (nrows A)) 0 rank = Inr Q" for QFull Q
    using Slice_dims[OF that] by (simp add: Mul_ok reduced_matrix_def)
  show ?thesis
    using assms
    by (simp add: Factorize_def minRank_def Dims_def P Z0 Z Y0 Y orthogonal_factor_def
        split: sum.splits option.splits prod.splits)
qed

text \<open>
  A rank above the number of rows: the factor of the QR collaborator has \<open>m\<close> columns, so
  the truncation of line 58 is out of range.
\<close>

lemma Factorize_rank_above_rows:
  assumes "int (nrows A) < rank" and "0 < nrows A" and "0 < ncols A"
    and "orthogonal_factor c (sketch (rand_Float64 c) A (nat rank)) = Inr QFull"
    and "Dims QFull = (int (nrows A), int (nrows A))"
  shows "Factorize c rsvd A rank = (Inl ErrIndexOutOfRange, rsvd)"
proof -
  from assms have r: "1 \<le> rank" by simp
  have "Slice QFull 0 (int (nrows A)) 0 rank = Inl ErrIndexOutOfRange"
    using assms by (simp add: Slice_def Dims_def Let_def)
  then show ?thesis
    using Factorize_unfold[OF r assms(2,3), of c rsvd] assms(4) by simp
qed

text \<open>
  A matrix without rows or without columns: the constructions of lines 42 and 46 fail.
\<close>

lemma Factorize_no_columns:
  assumes "ncols A = 0"
  shows "\<exists>e. Factorize c rsvd A rank = (Inl e, rsvd)"
  using assms
  by (simp add: Factorize_def Dims_def makeRandomMatrix_def NewDense_def)

lemma Factorize_no_rows:
  assumes "nrows A = 0"
  shows "\<exists>e. Factorize c rsvd A rank = (Inl e, rsvd)"
  using assms
  by (simp add: Factorize_def Dims_def NewDense_def split: sum.splits)

lemma Factorize_returns:
  assumes "Factorize c rsvd A rank = (Inr b, rsvd')"
  shows "\<exists>sv sv' Q.
           1 \<le> rank \<and> 0 < nrows A \<and> 0 < ncols A \<and> rsvd_svd rsvd = Some sv \<and>
           nrows Q = nrows A \<and> ncols Q = nat rank \<and>
           svd_Factorize c sv (reduced_matrix Q A) SVDThin = (Inr b, sv') \<and>
           rsvd' = rsvd\<lparr>rsvd_m := int (nrows A), rsvd_q := Some Q, rsvd_svd := Some sv'\<rparr>"
proof -
  have r: "1 \<le> rank"
    using assms by (auto simp: Factorize_def minRank_def split: if_splits)
  have n: "0 < ncols A"
    using assms Factorize_no_columns[of A c rsvd rank] by (cases "ncols A = 0") auto
  have m: "0 < nrows A"
    using assms Factorize_no_rows[of A c rsvd rank] by (cases "nrows A = 0") auto
  from assms obtain QFull Q sv where
    q: "Slice QFull 0 (int (nrows A)) 0 rank = Inr Q" and
    s: "rsvd_svd rsvd = Some sv" and
    f: "fst (svd_Factorize c sv (reduced_matrix Q A) SVDThin) = Inr b" and
    e: "rsvd' = rsvd\<lparr>rsvd_m := int (nrows A), rsvd_q := Some Q,
          rsvd_svd := Some (snd (svd_Factorize c sv (reduced_matrix Q A) SVDThin))\<rparr>"
    unfolding Factorize_unfold[OF r m n]
    by (auto split: sum.splits option.splits)
  from Slice_dims[OF q] r have "nrows Q = nrows A" "ncols Q = nat rank" by simp_all
  moreover from f have "svd_Factorize c sv (reduced_matrix Q A) SVDThin =
      (Inr b, snd (svd_Factorize c sv (reduced_matrix Q A) SVDThin))"
    by (cases "svd_Factorize c sv (reduced_matrix Q A) SVDThin") simp
  ultimately show ?thesis using r m n s e by blast
qed

lemma plain_values_contract: "svd_values_contract plain"
  by (auto simp: svd_values_contract_def plain_def sorted_map)

lemma extract_into_contract: "extraction_contract (extract_into r k f) r k"
  by (auto simp: extraction_contract_def extract_into_def)

lemma plain_right_contract: "svd_right_contract plain"
  by (auto simp: svd_right_contract_def plain_def extract_into_contract)

lemma plain_left_contract: "svd_left_contract plain"
  by (auto simp: svd_left_contract_def plain_def extract_into_contract)

lemma Factorize_done: "Factorize plain RSVD_fresh A32 2 = (Inr True, RSVD_done)"
proof -
  have "fst (Factorize plain RSVD_fresh A32 2) = Inr True" by code_simp
  then show ?thesis by (simp add: RSVD_done_def prod_eq_iff)
qed

lemma Factorize_done3: "Factorize plain RSVD_fresh A32 3 = (Inr True, RSVD_done3)"
proof -
  have "fst (Factorize plain RSVD_fresh A32 3) = Inr True" by code_simp
  then show ?thesis by (simp add: RSVD_done3_def prod_eq_iff)
qed

section \<open>UTo on a receiver that holds the rank\<close>

text \<open>
  \<open>Factorize\<close> does not assign the field \<open>rank\<close>.  On a receiver whose field holds
  the rank argument already, and with a rank of at most the number of columns, \<open>UTo\<close>
  does what its comment says: \<open>Uy\<close> is \<open>rank \<times> rank\<close>, an empty destination or one
  of shape \<open>m \<times> rank\<close> becomes \<open>Q \<cdot> Uy\<close>, and a non-empty destination of another
  shape is refused unchanged.  With a rank above the number of columns \<open>Uy\<close> is
  \<open>rank \<times> n\<close> and the product of line 99 does not fit the \<open>m \<times> rank\<close> receiver.
\<close>

lemma UTo_when_rank_stored:
  assumes "svd_left_contract c" and "Factorize c rsvd A rank = (Inr True, rsvd')"
    and "rsvd_rank rsvd = rank" and "rank \<le> int (ncols A)"
  shows "\<exists>sv' Q Uy.
           rsvd_svd rsvd' = Some sv' \<and> rsvd_q rsvd' = Some Q \<and>
           svd_UTo c sv' empty_dense = Inr Uy \<and>
           Dims Q = (int (nrows A), rank) \<and> Dims Uy = (rank, rank) \<and>
           (if IsEmpty dst \<or> Dims dst = (int (nrows A), rank)
            then UTo c rsvd' dst = (Inr (), matmul Q Uy)
            else UTo c rsvd' dst = (Inl ErrShape, dst))"
proof -
  from Factorize_returns[OF assms(2)] obtain sv sv' Q where
    r: "1 \<le> rank" and m: "0 < nrows A" and q: "nrows Q = nrows A" "ncols Q = nat rank" and
    f: "svd_Factorize c sv (reduced_matrix Q A) SVDThin = (Inr True, sv')" and
    e: "rsvd' = rsvd\<lparr>rsvd_m := int (nrows A), rsvd_q := Some Q, rsvd_svd := Some sv'\<rparr>"
    by auto
  have y: "nrows (reduced_matrix Q A) = nat rank"
    "min (nat rank) (ncols (reduced_matrix Q A)) = nat rank"
    using q r assms(4) by (simp_all add: reduced_matrix_def)
  have emp: "IsEmpty (empty_dense :: 'a dense)"
    by (simp add: IsEmpty_def empty_dense_def)
  note assms(1)[unfolded svd_left_contract_def, rule_format, OF f, unfolded y]
  then have
    "if IsEmpty (empty_dense :: 'a dense) \<or>
        (nrows (empty_dense :: 'a dense) = nat rank \<and> ncols (empty_dense :: 'a dense) = nat rank)
     then \<exists>d. svd_UTo c sv' empty_dense = Inr d \<and> nrows d = nat rank \<and> ncols d = nat rank
     else svd_UTo c sv' empty_dense = Inl ErrShape"
    unfolding extraction_contract_def by (rule spec)
  with emp obtain Uy where
    uy: "svd_UTo c sv' empty_dense = Inr Uy" "nrows Uy = nat rank" "ncols Uy = nat rank"
    by auto
  have u0: "NewDense (int (nrows A)) rank None =
        Inr \<lparr>nrows = nrows A, ncols = nat rank,
             elems = replicate (nat (int (nrows A) * rank)) (0::'a)\<rparr>"
    using NewDense_None[of "int (nrows A)" rank] m r by simp
  have mu: "Mul \<lparr>nrows = nrows A, ncols = nat rank,
             elems = replicate (nat (int (nrows A) * rank)) (0::'a)\<rparr> Q Uy = Inr (matmul Q Uy)"
    using q uy by (simp add: Mul_ok)
  have d: "Dims d = (int (nrows A), rank) \<longleftrightarrow> nrows d = nrows A \<and> ncols d = nat rank"
    for d :: "'a dense"
    using r by (auto simp: Dims_def)
  have body: "if IsEmpty dst \<or> Dims dst = (int (nrows A), rank)
            then UTo c rsvd' dst = (Inr (), matmul Q Uy)
            else UTo c rsvd' dst = (Inl ErrShape, dst)"
  proof (cases "IsEmpty dst")
    case True
    have "ReuseAs dst (int (nrows A)) rank =
        Inr \<lparr>nrows = nrows A, ncols = nat rank,
             elems = replicate (nat (int (nrows A) * rank)) (0::'a)\<rparr>"
      using True m r by (simp add: ReuseAs_def)
    moreover have "Copy \<lparr>nrows = nrows A, ncols = nat rank,
             elems = replicate (nat (int (nrows A) * rank)) (0::'a)\<rparr> (matmul Q Uy) =
          matmul Q Uy"
      using q uy by (simp add: Copy_matmul)
    ultimately show ?thesis
      using True e uy u0 mu assms(3) by (simp add: UTo_def)
  next
    case False
    show ?thesis
    proof (cases "Dims dst = (int (nrows A), rank)")
      case True
      then have "Copy dst (matmul Q Uy) = matmul Q Uy"
        using q uy by (simp add: Copy_matmul d)
      with True False e uy u0 mu assms(3) show ?thesis
        by (simp add: UTo_def Dims_def)
    next
      case ne: False
      with False e uy u0 mu assms(3) show ?thesis
        by (auto simp: UTo_def Dims_def)
    qed
  qed
  from e uy q r body show ?thesis
    by (simp add: Dims_def)
qed

lemma UTo_rank_above_columns:
  assumes "svd_left_contract c" and "Factorize c rsvd A rank = (Inr True, rsvd')"
    and "rsvd_rank rsvd = rank" and "int (ncols A) < rank"
  shows "UTo c rsvd' dst = (Inl ErrShape, dst)"
proof -
  from Factorize_returns[OF assms(2)] obtain sv sv' Q where
    r: "1 \<le> rank" and m: "0 < nrows A" and q: "nrows Q = nrows A" "ncols Q = nat rank" and
    f: "svd_Factorize c sv (reduced_matrix Q A) SVDThin = (Inr True, sv')" and
    e: "rsvd' = rsvd\<lparr>rsvd_m := int (nrows A), rsvd_q := Some Q, rsvd_svd := Some sv'\<rparr>"
    by auto
  have y: "nrows (reduced_matrix Q A) = nat rank"
    "min (nat rank) (ncols (reduced_matrix Q A)) = ncols A"
    using q r assms(4) by (simp_all add: reduced_matrix_def)
  have emp: "IsEmpty (empty_dense :: 'a dense)"
    by (simp add: IsEmpty_def empty_dense_def)
  note assms(1)[unfolded svd_left_contract_def, rule_format, OF f, unfolded y]
  then have
    "if IsEmpty (empty_dense :: 'a dense) \<or>
        (nrows (empty_dense :: 'a dense) = nat rank \<and> ncols (empty_dense :: 'a dense) = ncols A)
     then \<exists>d. svd_UTo c sv' empty_dense = Inr d \<and> nrows d = nat rank \<and> ncols d = ncols A
     else svd_UTo c sv' empty_dense = Inl ErrShape"
    unfolding extraction_contract_def by (rule spec)
  with emp obtain Uy where
    uy: "svd_UTo c sv' empty_dense = Inr Uy" "nrows Uy = nat rank" "ncols Uy = ncols A"
    by auto
  have u0: "NewDense (int (nrows A)) rank None =
        Inr \<lparr>nrows = nrows A, ncols = nat rank,
             elems = replicate (nat (int (nrows A) * rank)) (0::'a)\<rparr>"
    using NewDense_None[of "int (nrows A)" rank] m r by simp
  have "Mul \<lparr>nrows = nrows A, ncols = nat rank,
             elems = replicate (nat (int (nrows A) * rank)) (0::'a)\<rparr> Q Uy = Inl ErrShape"
    using q uy m r assms(4) by (auto simp: Mul_def IsEmpty_def)
  with e uy u0 assms(3) show ?thesis
    by (simp add: UTo_def)
qed

lemma UTo_when_rank_stored_example:
  "UTo plain (RSVD_done\<lparr>rsvd_rank := 2\<rparr>) empty_dense =
     (Inr (), \<lparr>nrows = 3, ncols = 2, elems = [1, 0, 0, 1, 0, 0]\<rparr>) \<and>
   UTo plain (RSVD_done\<lparr>rsvd_rank := 2\<rparr>) D32 =
     (Inr (), \<lparr>nrows = 3, ncols = 2, elems = [1, 0, 0, 1, 0, 0]\<rparr>) \<and>
   UTo plain (RSVD_done3\<lparr>rsvd_rank := 3\<rparr>) empty_dense = (Inl ErrShape, empty_dense)"
  by code_simp

section \<open>VTo after a successful Factorize\<close>

text \<open>
  \<open>VTo\<close> is the extraction of the right singular vectors by the SVD collaborator from
  the state of the factorization of \<open>Y\<close>, with nothing done to its result.  With a
  collaborator that keeps \<open>svd_right_contract\<close>, an empty destination, or one of shape
  \<open>n \<times> min rank n\<close>, comes back as a matrix of that shape, which is
  \<open>n \<times> rank\<close> whenever \<open>rank \<le> n\<close>; a non-empty destination of another shape is
  the fatal failure \<open>ErrShape\<close>, the destination left as it was.
\<close>

lemma VTo_after_Factorize:
  assumes "svd_right_contract c" and "Factorize c rsvd A rank = (Inr True, rsvd')"
  shows "(\<exists>sv'. rsvd_svd rsvd' = Some sv' \<and>
            VTo c rsvd' dst =
              (case svd_VTo c sv' dst of Inl e \<Rightarrow> (Inl e, dst) | Inr d \<Rightarrow> (Inr (), d))) \<and>
         (if IsEmpty dst \<or> Dims dst = (int (ncols A), min rank (int (ncols A)))
          then \<exists>d. VTo c rsvd' dst = (Inr (), d) \<and>
                   Dims d = (int (ncols A), min rank (int (ncols A)))
          else VTo c rsvd' dst = (Inl ErrShape, dst))"
proof -
  from Factorize_returns[OF assms(2)] obtain sv sv' Q where
    r: "1 \<le> rank" and q: "ncols Q = nat rank" and
    f: "svd_Factorize c sv (reduced_matrix Q A) SVDThin = (Inr True, sv')" and
    e: "rsvd_svd rsvd' = Some sv'"
    by auto
  have y: "nrows (reduced_matrix Q A) = nat rank" "ncols (reduced_matrix Q A) = ncols A"
    using q by (simp_all add: reduced_matrix_def)
  note assms(1)[unfolded svd_right_contract_def, rule_format, OF f, unfolded y]
  then have x:
    "if IsEmpty dst \<or> (nrows dst = ncols A \<and> ncols dst = min (nat rank) (ncols A))
     then \<exists>d. svd_VTo c sv' dst = Inr d \<and> nrows d = ncols A \<and>
              ncols d = min (nat rank) (ncols A)
     else svd_VTo c sv' dst = Inl ErrShape"
    unfolding extraction_contract_def by (rule spec)
  have d: "Dims d = (int (ncols A), min rank (int (ncols A))) \<longleftrightarrow>
           nrows d = ncols A \<and> ncols d = min (nat rank) (ncols A)"
    for d :: "'a dense"
    using r by (auto simp: Dims_def)
  have v: "VTo c rsvd' dst =
      (case svd_VTo c sv' dst of Inl e \<Rightarrow> (Inl e, dst) | Inr d \<Rightarrow> (Inr (), d))"
    using e by (simp add: VTo_def)
  show ?thesis
  proof (cases "IsEmpty dst \<or> Dims dst = (int (ncols A), min rank (int (ncols A)))")
    case True
    with x obtain d' where "svd_VTo c sv' dst = Inr d'" "nrows d' = ncols A"
        "ncols d' = min (nat rank) (ncols A)"
      unfolding d by auto
    with True e v show ?thesis by (simp add: d)
  next
    case False
    with x have "svd_VTo c sv' dst = Inl ErrShape"
      unfolding d by simp
    with False e v show ?thesis by simp
  qed
qed

lemma VTo_after_Factorize_example:
  "svd_right_contract plain \<and>
   Factorize plain RSVD_fresh A32 2 = (Inr True, RSVD_done) \<and>
   VTo plain RSVD_done empty_dense = (Inr (), \<lparr>nrows = 2, ncols = 2, elems = [1, 0, 0, 1]\<rparr>) \<and>
   VTo plain RSVD_done D32 = (Inl ErrShape, D32)"
proof -
  have e: "IsEmpty (empty_dense :: int dense)" by code_simp
  have n: "\<not> (IsEmpty D32 \<or> Dims D32 = (int (ncols A32), min 2 (int (ncols A32))))"
    by code_simp
  from VTo_after_Factorize[OF plain_right_contract Factorize_done, where dst = D32] n
  have w: "VTo plain RSVD_done D32 = (Inl ErrShape, D32)" by simp
  from VTo_after_Factorize[OF plain_right_contract Factorize_done, where dst = empty_dense] e
  obtain d where "VTo plain RSVD_done empty_dense = (Inr (), d)" by auto
  moreover have "snd (VTo plain RSVD_done empty_dense) =
      \<lparr>nrows = 2, ncols = 2, elems = [1, 0, 0, 1]\<rparr>" by code_simp
  ultimately have "VTo plain RSVD_done empty_dense =
      (Inr (), \<lparr>nrows = 2, ncols = 2, elems = [1, 0, 0, 1]\<rparr>)" by simp
  with w plain_right_contract Factorize_done show ?thesis by simp
qed

section \<open>The claims\<close>

text \<open>
  Claim C1.  The claim says that every accessor is valid once \<open>Factorize\<close> has returned
  true.  On the receiver \<open>RSVD_fresh\<close>, the \<open>3 \<times> 2\<close> matrix \<open>A32\<close> and rank 2,
  \<open>Factorize\<close> returns true, \<open>Values\<close> and \<open>VTo\<close> answer, and \<open>UTo\<close> on an empty
  destination panics: the field \<open>rank\<close> it builds the result with (line 98) was never
  assigned.
\<close>

theorem Factorize_true_then_UTo_panics:
  "Factorize plain RSVD_fresh A32 2 = (Inr True, snd (Factorize plain RSVD_fresh A32 2)) \<and>
   Values plain (snd (Factorize plain RSVD_fresh A32 2)) None = Inr [1, 0] \<and>
   VTo plain (snd (Factorize plain RSVD_fresh A32 2)) empty_dense =
     (Inr (), \<lparr>nrows = 2, ncols = 2, elems = [1, 0, 0, 1]\<rparr>) \<and>
   UTo plain (snd (Factorize plain RSVD_fresh A32 2)) empty_dense =
     (Inl ErrZeroLength, empty_dense)"
  by code_simp

theorem Factorize_true_then_UTo_panics_witness:
  "fst (Factorize plain RSVD_fresh A32 2) = Inr True \<and>
   fst (UTo plain (snd (Factorize plain RSVD_fresh A32 2)) empty_dense) = Inl ErrZeroLength"
proof -
  from Factorize_true_then_UTo_panics
  have a: "Factorize plain RSVD_fresh A32 2 = (Inr True, snd (Factorize plain RSVD_fresh A32 2))"
    and b: "UTo plain (snd (Factorize plain RSVD_fresh A32 2)) empty_dense =
      (Inl ErrZeroLength, empty_dense)"
    by blast+
  from a have "fst (Factorize plain RSVD_fresh A32 2) = Inr True" by (metis fst_conv)
  moreover from b have
    "fst (UTo plain (snd (Factorize plain RSVD_fresh A32 2)) empty_dense) = Inl ErrZeroLength"
    by simp
  ultimately show ?thesis by blast
qed




text \<open>
  Claim C3.  The claim says that \<open>Factorize\<close> stores its rank argument.  The code assigns
  the fields \<open>m\<close> and \<open>q\<close> only (lines 65--66): whatever the call does, the field
  \<open>rank\<close> holds afterwards what it held before.
\<close>

theorem Factorize_never_stores_rank:
  "rsvd_rank (snd (Factorize c rsvd A rank)) = rsvd_rank rsvd"
  by (simp add: Factorize_def Let_def split: sum.splits prod.splits option.splits)

text \<open>
  Claim C4.  The claim says that \<open>UTo\<close> writes the \<open>m \<times> rank\<close> matrix, \<open>rank\<close> the
  argument of the successful \<open>Factorize\<close>.  The code builds it from the field \<open>rank\<close>
  (line 98), which \<open>Factorize\<close> does not assign: on a receiver whose field is 0, as in
  the zero value of the struct, \<open>UTo\<close> after a successful \<open>Factorize\<close> panics for
  every destination, of the right shape or not, and writes nothing.  (The lemma
  \<open>UTo_when_rank_stored\<close> above is what the code does once the field holds the rank.)
\<close>

theorem UTo_after_Factorize_unset_rank:
  assumes "Factorize c rsvd A rank = (Inr True, rsvd')" and "rsvd_rank rsvd \<le> 0"
  shows "\<exists>e. UTo c rsvd' dst = (Inl e, dst)"
proof -
  from Factorize_returns[OF assms(1)] have "rsvd_rank rsvd' = rsvd_rank rsvd"
    by auto
  with assms(2) have "\<exists>e. NewDense (rsvd_m rsvd') (rsvd_rank rsvd') None =
      (Inl e :: panic + 'a dense)"
    by (simp add: NewDense_def)
  then show ?thesis
    by (auto simp: UTo_def split: option.splits sum.splits)
qed

theorem UTo_after_Factorize_unset_rank_witness:
  "Factorize plain RSVD_fresh A32 2 = (Inr True, RSVD_done) \<and>
   rsvd_rank RSVD_fresh \<le> 0 \<and>
   UTo plain RSVD_done D32 = (Inl ErrZeroLength, D32) \<and>
   UTo plain RSVD_done empty_dense = (Inl ErrZeroLength, empty_dense)"
proof -
  have h: "rsvd_rank RSVD_fresh \<le> 0" by (simp add: RSVD_fresh_def)
  from UTo_after_Factorize_unset_rank[OF Factorize_done h, where dst = D32]
  obtain e where a: "UTo plain RSVD_done D32 = (Inl e, D32)" by blast
  from UTo_after_Factorize_unset_rank[OF Factorize_done h, where dst = empty_dense]
  obtain e' where b: "UTo plain RSVD_done empty_dense = (Inl e', empty_dense)" by blast
  have "fst (UTo plain RSVD_done D32) = Inl ErrZeroLength"
    and "fst (UTo plain RSVD_done empty_dense) = Inl ErrZeroLength"
    by code_simp+
  with a b have "e = ErrZeroLength" "e' = ErrZeroLength" by simp_all
  with a b h Factorize_done show ?thesis by simp
qed

text \<open>
  Claim C5.  The claim gives the chain for every rank of at least 1.  For a rank above the
  number of rows the code aborts at the truncation, as the evaluation after the theorem
  shows.  As amended: for every matrix \<open>A\<close> (\<open>m \<times> n\<close>, \<open>n \<ge> 1\<close>) and every
  \<open>1 \<le> rank \<le> m\<close>, when the QR collaborator returns its full \<open>m \<times> m\<close> factor of
  the sketch, \<open>Z = A \<cdot> P\<close> is \<open>m \<times> rank\<close> for the \<open>n \<times> rank\<close> random projector
  \<open>P\<close>, \<open>Q\<close> is the first \<open>rank\<close> columns of the factor of \<open>Z\<close>, and the matrix handed
  to the SVD collaborator, in thin mode, is \<open>Y = Q\<^sup>T \<cdot> A\<close> of size \<open>rank \<times> n\<close>;
  \<open>m\<close> and \<open>Q\<close> are stored before that call.
\<close>

theorem Factorize_chain:
  assumes "1 \<le> rank" and "rank \<le> int (nrows A)" and "0 < ncols A"
    and "orthogonal_factor c (sketch (rand_Float64 c) A (nat rank)) = Inr QFull"
    and "Dims QFull = (int (nrows A), int (nrows A))"
  shows "let P = random_projector (rand_Float64 c) (ncols A) (nat rank);
             Z = matmul A P;
             Q = first_columns (nat rank) QFull;
             Y = matmul (T Q) A
         in Dims P = (int (ncols A), rank) \<and>
            Dims Z = (int (nrows A), rank) \<and>
            orthogonal_factor c Z = Inr QFull \<and>
            Dims Q = (int (nrows A), rank) \<and>
            Dims Y = (rank, int (ncols A)) \<and>
            Factorize c rsvd A rank =
              (case rsvd_svd rsvd of
                 None \<Rightarrow> (Inl NilDereference, rsvd\<lparr>rsvd_m := int (nrows A), rsvd_q := Some Q\<rparr>)
               | Some sv \<Rightarrow>
                   (fst (svd_Factorize c sv Y SVDThin),
                    rsvd\<lparr>rsvd_m := int (nrows A), rsvd_q := Some Q,
                         rsvd_svd := Some (snd (svd_Factorize c sv Y SVDThin))\<rparr>))"
proof -
  from assms have pos: "0 < nrows A" by simp
  from assms have dq: "nrows QFull = nrows A" "ncols QFull = nrows A"
    by (simp_all add: Dims_def)
  have sl: "Slice QFull 0 (int (nrows A)) 0 rank = Inr (first_columns (nat rank) QFull)"
    using Slice_first_columns[of QFull rank] assms(1,2) pos dq by simp
  have fz: "Factorize c rsvd A rank =
              (case rsvd_svd rsvd of
                 None \<Rightarrow> (Inl NilDereference,
                   rsvd\<lparr>rsvd_m := int (nrows A), rsvd_q := Some (first_columns (nat rank) QFull)\<rparr>)
               | Some sv \<Rightarrow>
                   (fst (svd_Factorize c sv (matmul (T (first_columns (nat rank) QFull)) A) SVDThin),
                    rsvd\<lparr>rsvd_m := int (nrows A), rsvd_q := Some (first_columns (nat rank) QFull),
                         rsvd_svd := Some (snd (svd_Factorize c sv
                            (matmul (T (first_columns (nat rank) QFull)) A) SVDThin))\<rparr>))"
    using Factorize_unfold[OF assms(1) pos assms(3), of c rsvd] assms(4) sl
    unfolding reduced_matrix_def by simp
  have dims: "Dims (random_projector (rand_Float64 c) (ncols A) (nat rank)) = (int (ncols A), rank)"
     "Dims (matmul A (random_projector (rand_Float64 c) (ncols A) (nat rank))) = (int (nrows A), rank)"
     "Dims (first_columns (nat rank) QFull) = (int (nrows A), rank)"
     "Dims (matmul (T (first_columns (nat rank) QFull)) A) = (rank, int (ncols A))"
    using assms(1) dq by (simp_all add: Dims_def random_projector_def first_columns_def)
  from fz dims assms(4) show ?thesis
    by (simp add: Let_def sketch_def)
qed

theorem Factorize_chain_witness:
  "(1::int) \<le> 2 \<and> (2::int) \<le> int (nrows A32) \<and> 0 < ncols A32 \<and>
   orthogonal_factor plain (sketch (rand_Float64 plain) A32 (nat 2)) = Inr I3 \<and>
   Dims I3 = (int (nrows A32), int (nrows A32)) \<and>
   first_columns (nat 2) I3 = \<lparr>nrows = 3, ncols = 2, elems = [1, 0, 0, 1, 0, 0]\<rparr> \<and>
   matmul (T (first_columns (nat 2) I3)) A32 = \<lparr>nrows = 2, ncols = 2, elems = [1, 2, 3, 4]\<rparr> \<and>
   Dims (matmul (T (first_columns (nat 2) I3)) A32) = (2, int (ncols A32)) \<and>
   Factorize plain RSVD_fresh A32 2 =
     (fst (svd_Factorize plain None (matmul (T (first_columns (nat 2) I3)) A32) SVDThin),
      RSVD_fresh\<lparr>rsvd_m := int (nrows A32), rsvd_q := Some (first_columns (nat 2) I3),
        rsvd_svd := Some (snd (svd_Factorize plain None
                                 (matmul (T (first_columns (nat 2) I3)) A32) SVDThin))\<rparr>)"
proof -
  have h1: "(1::int) \<le> 2" by simp
  have h2: "(2::int) \<le> int (nrows A32)" by code_simp
  have h3: "0 < ncols A32" by code_simp
  have h4: "orthogonal_factor plain (sketch (rand_Float64 plain) A32 (nat 2)) = Inr I3"
    by code_simp
  have h5: "Dims I3 = (int (nrows A32), int (nrows A32))" by code_simp
  have q: "first_columns (nat 2) I3 = \<lparr>nrows = 3, ncols = 2, elems = [1, 0, 0, 1, 0, 0]\<rparr>"
    by code_simp
  have y: "matmul (T (first_columns (nat 2) I3)) A32 =
      \<lparr>nrows = 2, ncols = 2, elems = [1, 2, 3, 4]\<rparr>"
    by code_simp
  have sv: "rsvd_svd RSVD_fresh = Some None" by (simp add: RSVD_fresh_def)
  note th = Factorize_chain[OF h1 h2 h3 h4 h5, where rsvd = RSVD_fresh, unfolded Let_def sv option.case]
  from th have d: "Dims (matmul (T (first_columns (nat 2) I3)) A32) = (2, int (ncols A32))"
    by blast
  from th have f: "Factorize plain RSVD_fresh A32 2 =
     (fst (svd_Factorize plain None (matmul (T (first_columns (nat 2) I3)) A32) SVDThin),
      RSVD_fresh\<lparr>rsvd_m := int (nrows A32), rsvd_q := Some (first_columns (nat 2) I3),
        rsvd_svd := Some (snd (svd_Factorize plain None
                                 (matmul (T (first_columns (nat 2) I3)) A32) SVDThin))\<rparr>)"
    by blast
  from h1 h2 h3 h4 h5 q y d f show ?thesis by blast
qed

theorem Factorize_chain_counterexample:
  "0 < nrows A32 \<and> 0 < ncols A32 \<and> (1::int) \<le> 4 \<and>
   orthogonal_factor plain (sketch (rand_Float64 plain) A32 4) =
     Inr \<lparr>nrows = 3, ncols = 3, elems = [1, 0, 0, 0, 1, 0, 0, 0, 1]\<rparr> \<and>
   Factorize plain RSVD_fresh A32 4 = (Inl ErrIndexOutOfRange, RSVD_fresh)"
  by code_simp

text \<open>
  Claim C6.  For every matrix and every rank of at most 0, \<open>Factorize\<close> panics with the
  message of line 33 and returns no boolean; it does so before any computation: the
  outcome is the same for every matrix and for every choice of collaborators.
\<close>

theorem Factorize_aborts_below_minRank:
  assumes "rank \<le> 0"
  shows "fst (Factorize c rsvd A rank) = Inl (RankTooLow rank) \<and>
         (\<forall>b. fst (Factorize c rsvd A rank) \<noteq> Inr b) \<and>
         Factorize c rsvd A rank = Factorize c' rsvd A' rank"
  using assms by (simp add: Factorize_def minRank_def)

theorem Factorize_aborts_below_minRank_witness:
  "(-3::int) \<le> 0 \<and>
   fst (Factorize plain RSVD_fresh A32 (-3)) = Inl (RankTooLow (-3)) \<and>
   Factorize plain RSVD_fresh A32 (-3) = Factorize plain RSVD_fresh empty_dense (-3)"
proof -
  have h: "(-3::int) \<le> 0" by simp
  from Factorize_aborts_below_minRank[OF h, where c = plain and rsvd = RSVD_fresh and A = A32
      and c' = plain and A' = empty_dense]
  show ?thesis using h by blast
qed

text \<open>
  Claim C7.  A call of \<open>Factorize\<close> that aborts on the precondition \<open>rank < 1\<close> leaves
  every field of the receiver as it was, so every accessor answers after the call what it
  answered before: a factorization stored earlier stays accessible.
\<close>

theorem Factorize_abort_keeps_state:
  assumes "rank < 1"
  shows "snd (Factorize c rsvd A rank) = rsvd \<and>
         Values c (snd (Factorize c rsvd A rank)) s = Values c rsvd s \<and>
         UTo c (snd (Factorize c rsvd A rank)) dst = UTo c rsvd dst \<and>
         VTo c (snd (Factorize c rsvd A rank)) dst = VTo c rsvd dst"
  using assms by (simp add: Factorize_def minRank_def)

theorem Factorize_abort_keeps_state_witness:
  "(0::int) < 1 \<and>
   fst (Factorize plain RSVD_fresh A32 2) = Inr True \<and>
   snd (Factorize plain RSVD_done A32 0) = RSVD_done \<and>
   Values plain (snd (Factorize plain RSVD_done A32 0)) None = Inr [1, 0] \<and>
   VTo plain (snd (Factorize plain RSVD_done A32 0)) empty_dense =
     (Inr (), \<lparr>nrows = 2, ncols = 2, elems = [1, 0, 0, 1]\<rparr>)"
proof -
  have h: "(0::int) < 1" by simp
  have v: "Values plain RSVD_done None = Inr [1, 0]" by code_simp
  have w: "VTo plain RSVD_done empty_dense =
     (Inr (), \<lparr>nrows = 2, ncols = 2, elems = [1, 0, 0, 1]\<rparr>)" by code_simp
  have t: "fst (Factorize plain RSVD_fresh A32 2) = Inr True" by code_simp
  from Factorize_abort_keeps_state[OF h, where c = plain and rsvd = RSVD_done and A = A32
      and s = None and dst = empty_dense] v w t
  show ?thesis by simp
qed

text \<open>
  Claim C8.  When \<open>UTo\<close> is called with a non-empty destination whose dimensions are not
  those the receiver holds (\<open>m \<times> rank\<close>, lines 104--107), the call panics and the
  destination is exactly what it was: the only write to it, the copy of line 110, comes
  after the check.
\<close>

theorem UTo_wrong_shape_no_write:
  assumes "\<not> IsEmpty dst" and "Dims dst \<noteq> (rsvd_m rsvd, rsvd_rank rsvd)"
  shows "\<exists>e. UTo c rsvd dst = (Inl e, dst)"
  using assms
  by (auto simp: UTo_def Let_def split: option.splits sum.splits prod.splits)

theorem UTo_wrong_shape_no_write_witness:
  "\<not> IsEmpty D22 \<and>
   Dims D22 \<noteq> (rsvd_m (RSVD_done\<lparr>rsvd_rank := 2\<rparr>), rsvd_rank (RSVD_done\<lparr>rsvd_rank := 2\<rparr>)) \<and>
   UTo plain (RSVD_done\<lparr>rsvd_rank := 2\<rparr>) D22 = (Inl ErrShape, D22)"
proof -
  have h1: "\<not> IsEmpty D22" by code_simp
  have h2: "Dims D22 \<noteq>
      (rsvd_m (RSVD_done\<lparr>rsvd_rank := 2\<rparr>), rsvd_rank (RSVD_done\<lparr>rsvd_rank := 2\<rparr>))"
    by code_simp
  from UTo_wrong_shape_no_write[OF h1 h2, where c = plain]
  obtain e where e: "UTo plain (RSVD_done\<lparr>rsvd_rank := 2\<rparr>) D22 = (Inl e, D22)" by blast
  have "fst (UTo plain (RSVD_done\<lparr>rsvd_rank := 2\<rparr>) D22) = Inl ErrShape" by code_simp
  with e have "e = ErrShape" by simp
  with e h1 h2 show ?thesis by simp
qed

text \<open>
  Claim C9.  The claim gives \<open>Values\<close> exactly \<open>rank\<close> values.  The matrix that the
  SVD collaborator factorizes is \<open>rank \<times> n\<close>, and a thin SVD has \<open>min rank n\<close>
  singular values: with \<open>n < rank\<close> there are \<open>n\<close> of them, as the evaluation after the
  theorem shows for a \<open>3 \<times> 2\<close> matrix and rank 3.  As amended: after a successful
  \<open>Factorize(A, rank)\<close>, with an SVD collaborator that keeps \<open>svd_values_contract\<close>,
  \<open>Values\<close> returns exactly \<open>min rank n\<close> values (\<open>rank\<close> of them whenever
  \<open>rank \<le> n\<close>), in non-increasing order and none negative; a non-empty output slice
  is accepted when it has that length, and any other length is the fatal failure
  \<open>ErrSliceLengthMismatch\<close>.  What the code adds to the contract: the receiver holds the
  state of the factorization of \<open>Y\<close>, \<open>Y\<close> is \<open>rank \<times> n\<close>, and \<open>Values\<close> hands the
  call on unchanged.
\<close>

theorem Values_after_Factorize:
  assumes "svd_values_contract c" and "Factorize c rsvd A rank = (Inr True, rsvd')"
  shows "\<exists>vs. Values c rsvd' None = Inr vs \<and>
              int (length vs) = min rank (int (ncols A)) \<and>
              sorted (rev vs) \<and> (\<forall>v \<in> set vs. 0 \<le> v) \<and>
              (\<forall>xs. xs \<noteq> [] \<longrightarrow>
                 Values c rsvd' (Some xs) =
                   (if int (length xs) = min rank (int (ncols A)) then Inr vs
                    else Inl ErrSliceLengthMismatch))"
proof -
  from Factorize_returns[OF assms(2)] obtain sv sv' Q where
    r: "1 \<le> rank" and q: "ncols Q = nat rank" and
    f: "svd_Factorize c sv (reduced_matrix Q A) SVDThin = (Inr True, sv')" and
    e: "rsvd_svd rsvd' = Some sv'"
    by auto
  have y: "min (nrows (reduced_matrix Q A)) (ncols (reduced_matrix Q A)) = min (nat rank) (ncols A)"
    using q by (simp add: reduced_matrix_def)
  note ex = assms(1)[unfolded svd_values_contract_def, rule_format, OF f, unfolded y]
  then obtain vs where
    all: "length vs = min (nat rank) (ncols A) \<and> sorted (rev vs) \<and> (\<forall>v \<in> set vs. 0 \<le> v) \<and>
        svd_Values c sv' None = Inr vs \<and>
        (\<forall>xs. xs \<noteq> [] \<longrightarrow> svd_Values c sv' (Some xs) =
                   (if length xs = min (nat rank) (ncols A) then Inr vs
                    else Inl ErrSliceLengthMismatch))" ..
  then have
    vs: "length vs = min (nat rank) (ncols A)" "sorted (rev vs)" "\<forall>v \<in> set vs. 0 \<le> v"
        "svd_Values c sv' None = Inr vs"
        "\<forall>xs. xs \<noteq> [] \<longrightarrow> svd_Values c sv' (Some xs) =
                   (if length xs = min (nat rank) (ncols A) then Inr vs
                    else Inl ErrSliceLengthMismatch)"
    by blast+
  have l: "int k = min rank (int (ncols A)) \<longleftrightarrow> k = min (nat rank) (ncols A)" for k
    using r by auto
  from vs r e show ?thesis
    by (auto simp: Values_def l)
qed

theorem Values_after_Factorize_witness:
  "svd_values_contract plain \<and>
   Factorize plain RSVD_fresh A32 2 = (Inr True, RSVD_done) \<and>
   Values plain RSVD_done None = Inr [1, 0] \<and>
   Values plain RSVD_done (Some [7, 7]) = Inr [1, 0] \<and>
   Values plain RSVD_done (Some [7]) = Inl ErrSliceLengthMismatch"
proof -
  from Values_after_Factorize[OF plain_values_contract Factorize_done]
  obtain vs where
    a: "Values plain RSVD_done None = Inr vs" and
    b: "\<forall>xs. xs \<noteq> [] \<longrightarrow> Values plain RSVD_done (Some xs) =
          (if int (length xs) = min 2 (int (ncols A32)) then Inr vs
           else Inl ErrSliceLengthMismatch)"
    by blast
  have n: "ncols A32 = 2" by (simp add: A32_def)
  have "Values plain RSVD_done None = Inr [1, 0]" by code_simp
  with a have v: "vs = [1, 0]" by simp
  from b n have "Values plain RSVD_done (Some [7, 7]) = Inr vs"
    and "Values plain RSVD_done (Some [7]) = Inl ErrSliceLengthMismatch"
    by simp_all
  with a v plain_values_contract Factorize_done show ?thesis by simp
qed

theorem Values_after_Factorize_counterexample:
  "Factorize plain RSVD_fresh A32 3 = (Inr True, RSVD_done3) \<and>
   Values plain RSVD_done3 None = Inr [1, 0] \<and>
   Values plain RSVD_done3 (Some [7, 7, 7]) = Inl ErrSliceLengthMismatch"
proof -
  have "Values plain RSVD_done3 None = Inr [1, 0]"
    and "Values plain RSVD_done3 (Some [7, 7, 7]) = Inl ErrSliceLengthMismatch"
    by code_simp+
  with Factorize_done3 show ?thesis by simp
qed

text \<open>
  Claim C10.  The claim, like the comment of line 115, gives the result of \<open>VTo\<close> the
  shape \<open>n \<times> rank\<close>.  \<open>VTo\<close> only hands the call on to the SVD collaborator (lines
  119--121), and the right vectors of a thin SVD of the \<open>rank \<times> n\<close> matrix \<open>Y\<close> are
  \<open>n \<times> min rank n\<close>.  On the \<open>3 \<times> 2\<close> matrix \<open>A32\<close> and rank 3 \<open>Factorize\<close>
  returns true; \<open>VTo\<close> then resizes an empty destination to \<open>2 \<times> 2\<close>, not
  \<open>2 \<times> 3\<close>, and refuses the destination \<open>D23\<close>, which has the shape
  \<open>n \<times> rank\<close> that the claim and the comment promise.
\<close>

theorem VTo_rank_above_columns:
  "Factorize plain RSVD_fresh A32 3 = (Inr True, RSVD_done3) \<and>
   VTo plain RSVD_done3 empty_dense =
     (Inr (), \<lparr>nrows = 2, ncols = 2, elems = [1, 0, 0, 1]\<rparr>) \<and>
   Dims D23 = (int (ncols A32), 3) \<and>
   VTo plain RSVD_done3 D23 = (Inl ErrShape, D23)"
proof -
  have "VTo plain RSVD_done3 empty_dense =
     (Inr (), \<lparr>nrows = 2, ncols = 2, elems = [1, 0, 0, 1]\<rparr>)"
    and "Dims D23 = (int (ncols A32), 3)"
    and "VTo plain RSVD_done3 D23 = (Inl ErrShape, D23)"
    by code_simp+
  with Factorize_done3 show ?thesis by simp
qed

end
